theory Spec2Isabelle
  imports Complex_Main "HOL-Library.Word" "HOL-Library.Signed_Division"
begin

section \<open>The Krita producer of MLT: range restriction and variable-speed audio\<close>

text \<open>
  A shallow embedding of \<^verbatim>\<open>src/modules/krita/producer_krita.c\<close>: the two static
  helpers \<^verbatim>\<open>restrict_range\<close> and \<^verbatim>\<open>is_valid_range\<close>, the audio callback
  \<^verbatim>\<open>producer_get_audio\<close>, and the producer methods \<^verbatim>\<open>producer_get_frame\<close> and
  \<^verbatim>\<open>producer_seek\<close>.
\<close>

subsection \<open>C integers\<close>

text \<open>
  \<^verbatim>\<open>int\<close> is a 32-bit two's-complement integer: \<open>+\<close> and \<open>-\<close> on \<open>32 word\<close> wrap
  around, \<open>sint\<close> reads the signed value, \<open><s\<close> and \<open>\<le>s\<close> compare signed values.
  C leaves signed overflow undefined; the model takes the wrapped result that the
  two's-complement hardware delivers.
\<close>

type_synonym c_int = "32 word"

definition INT_MIN :: c_int where
  "INT_MIN = - 2147483648"

text \<open>
  The macro \<^verbatim>\<open>MAX(x, y)\<close> of the framework headers, \<^verbatim>\<open>((x) > (y) ? (x) : (y))\<close>, on
  \<^verbatim>\<open>int\<close> operands.
\<close>

definition MAX_macro :: "c_int \<Rightarrow> c_int \<Rightarrow> c_int" where
  "MAX_macro x y = (if y <s x then x else y)"

text \<open>
  The operator \<^verbatim>\<open>%\<close> on \<^verbatim>\<open>int\<close>: the remainder of the division that truncates
  towards zero (\<open>smod\<close>). A zero divisor traps, and so does \<^verbatim>\<open>INT_MIN % -1\<close>; both are
  the result \<open>None\<close>.
\<close>

definition c_mod :: "c_int \<Rightarrow> c_int \<Rightarrow> c_int option" where
  "c_mod a b =
     (if b = 0 \<or> (a = INT_MIN \<and> b = - 1) then None
      else Some (word_of_int (sint a smod sint b)))"

subsection \<open>\<^verbatim>\<open>restrict_range\<close> and \<^verbatim>\<open>is_valid_range\<close>\<close>

text \<open>
  \<^verbatim>\<open>
  static int restrict_range(int index, int min, int max)
  {
      const int span = max - min;
      return (MAX(index - min, 0) % (span + 1)) + min;
  }
  \<close>
\<close>

definition restrict_range :: "c_int \<Rightarrow> c_int \<Rightarrow> c_int \<Rightarrow> c_int option" where
  "restrict_range index min' max' =
     (let span = max' - min' in
      case c_mod (MAX_macro (index - min') 0) (span + 1) of
        None \<Rightarrow> None
      | Some r \<Rightarrow> Some (r + min'))"

text \<open>
  \<^verbatim>\<open>
  static int is_valid_range(const int frame_start, const int frame_end)
  {
      const bool NON_NEGATIVE = frame_start >= 0 && frame_end >= 0;
      const bool NON_INVERTED = frame_end > frame_start;
      return NON_NEGATIVE && NON_INVERTED;
  }
  \<close>
  The \<^verbatim>\<open>bool\<close> result is returned as the \<^verbatim>\<open>int\<close> 1 or 0.
\<close>

definition is_valid_range :: "c_int \<Rightarrow> c_int \<Rightarrow> c_int" where
  "is_valid_range frame_start frame_end =
     (let NON_NEGATIVE = (0 \<le>s frame_start \<and> 0 \<le>s frame_end);
          NON_INVERTED = (frame_start <s frame_end)
      in if NON_NEGATIVE \<and> NON_INVERTED then 1 else 0)"


subsection \<open>Doubles\<close>

text \<open>
  A \<^verbatim>\<open>double\<close> is an IEEE 754 binary64 value: \<open>Finite s m e\<close> is the number
  \<open>(-1)\<^sup>s * m * 2\<^sup>e\<close> (a zero when \<open>m = 0\<close>, with its sign), \<open>Infinity s\<close> an
  infinity with its sign, \<open>NaN\<close> a not-a-number. Results of arithmetic are rounded to
  nearest, ties to even, into 53 bits of mantissa above the exponent -1074.
\<close>

datatype double = Finite bool nat int | Infinity bool | NaN

definition double_zero :: double where
  "double_zero = Finite False 0 0"

text \<open>The number of binary digits of a mantissa.\<close>

fun bitlen :: "nat \<Rightarrow> nat" where
  "bitlen n = (if n = 0 then 0 else Suc (bitlen (n div 2)))"

declare bitlen.simps [simp del]

text \<open>\<open>m / 2\<^sup>s\<close> rounded to the nearest natural number, ties to even.\<close>

definition round_shift :: "nat \<Rightarrow> nat \<Rightarrow> nat" where
  "round_shift m s =
     (let q = m div 2 ^ s; r = m mod 2 ^ s; h = 2 ^ (s - 1)
      in if s = 0 then m
         else if h < r \<or> (r = h \<and> odd q) then q + 1 else q)"

text \<open>
  The binary64 value nearest to \<open>(-1)\<^sup>s * m * 2\<^sup>e\<close>: the mantissa keeps 53 bits (fewer
  in the subnormal range), and a magnitude of \<open>2\<^sup>1\<^sup>0\<^sup>2\<^sup>4\<close> or more becomes an infinity.
\<close>

definition double_round :: "bool \<Rightarrow> nat \<Rightarrow> int \<Rightarrow> double" where
  "double_round s m e =
     (if m = 0 then Finite s 0 0
      else
        let sh = max (int (bitlen m) - 53) (- 1074 - e) in
        if sh \<le> 0 then (if 1024 < e + int (bitlen m) then Infinity s else Finite s m e)
        else
          let m' = round_shift m (nat sh); e' = e + sh in
          if m' = 0 then Finite s 0 0
          else if 1024 < e' + int (bitlen m') then Infinity s
          else Finite s m' e')"

text \<open>The operator \<^verbatim>\<open>*\<close> on doubles.\<close>

fun double_mult :: "double \<Rightarrow> double \<Rightarrow> double" where
  "double_mult NaN _ = NaN"
| "double_mult _ NaN = NaN"
| "double_mult (Infinity s) (Infinity t) = Infinity (s \<noteq> t)"
| "double_mult (Infinity s) (Finite t m e) = (if m = 0 then NaN else Infinity (s \<noteq> t))"
| "double_mult (Finite s m e) (Infinity t) = (if m = 0 then NaN else Infinity (s \<noteq> t))"
| "double_mult (Finite s m e) (Finite t n f) = double_round (s \<noteq> t) (m * n) (e + f)"

text \<open>\<^verbatim>\<open>fabs\<close> of \<^verbatim>\<open>math.h\<close> clears the sign.\<close>

fun fabs :: "double \<Rightarrow> double" where
  "fabs (Finite s m e) = Finite False m e"
| "fabs (Infinity s) = Infinity False"
| "fabs NaN = NaN"

definition signed_mantissa :: "bool \<Rightarrow> nat \<Rightarrow> int" where
  "signed_mantissa s m = (if s then - int m else int m)"

text \<open>The operator \<^verbatim>\<open><\<close> on doubles: false whenever an operand is a NaN.\<close>

fun double_less :: "double \<Rightarrow> double \<Rightarrow> bool" where
  "double_less NaN _ = False"
| "double_less _ NaN = False"
| "double_less (Infinity s) (Infinity t) = (s \<and> \<not> t)"
| "double_less (Infinity s) (Finite t m e) = s"
| "double_less (Finite s m e) (Infinity t) = (\<not> t)"
| "double_less (Finite s m e) (Finite t n f) =
     (let g = min e f
      in signed_mantissa s m * 2 ^ nat (e - g) < signed_mantissa t n * 2 ^ nat (f - g))"


text \<open>The conversion \<^verbatim>\<open>(double) i\<close> of an \<^verbatim>\<open>int\<close>: exact.\<close>

definition int_to_double :: "c_int \<Rightarrow> double" where
  "int_to_double i = Finite (sint i < 0) (nat \<bar>sint i\<bar>) 0"

text \<open>
  The conversion of a double to \<^verbatim>\<open>int\<close> in an assignment: the fraction is discarded
  (truncation towards zero). C leaves the conversion undefined for a NaN, an infinity and
  a value outside the range of \<^verbatim>\<open>int\<close>; the model takes \<^verbatim>\<open>INT_MIN\<close> there, the
  result the conversion instruction of x86-64 delivers.
\<close>

definition double_to_int :: "double \<Rightarrow> c_int" where
  "double_to_int d =
     (case d of
        Finite s m e \<Rightarrow>
          (let t = (if 0 \<le> e then int m * 2 ^ nat e else int m div 2 ^ nat (- e));
               z = (if s then - t else t)
           in if - 2147483648 \<le> z \<and> z \<le> 2147483647 then word_of_int z else INT_MIN)
      | _ \<Rightarrow> INT_MIN)"

subsection \<open>Audio buffers\<close>

text \<open>
  \<^verbatim>\<open>struct mlt_audio_s\<close>, with the five fields this file reads and writes. The sample
  data the pointer \<^verbatim>\<open>data\<close> refers to is the list of the sample groups in temporal
  order, a group holding one sample of each channel; the format tag is a type parameter.
\<close>

record ('s, 'f) mlt_audio_s =
  data :: "'s list list"
  frequency :: c_int
  format :: 'f
  samples :: c_int
  channels :: c_int

text \<open>
  The values behind the five in-out pointers of an audio callback, in the order of its
  parameters: \<^verbatim>\<open>*buffer\<close>, \<^verbatim>\<open>*format\<close>, \<^verbatim>\<open>*frequency\<close>, \<^verbatim>\<open>*channels\<close>, \<^verbatim>\<open>*samples\<close>.
\<close>

type_synonym ('s, 'f) audio_params = "'s list list \<times> 'f \<times> c_int \<times> c_int \<times> c_int"

text \<open>
  Modelled from the spec: \<^verbatim>\<open>mlt_audio_set_values\<close> is framework code that is not part
  of this file. An AudioBuffer (section 3) is the sample data region, the sample format
  tag, the sample rate, the channel count and the sample count; the call stores its five
  arguments in the fields of these names.
\<close>

definition mlt_audio_set_values ::
  "'s list list \<Rightarrow> c_int \<Rightarrow> 'f \<Rightarrow> c_int \<Rightarrow> c_int \<Rightarrow> ('s, 'f) mlt_audio_s" where
  "mlt_audio_set_values data' frequency' format' samples' channels' =
     \<lparr>data = data', frequency = frequency', format = format',
      samples = samples', channels = channels'\<rparr>"

text \<open>
  Modelled from the spec: \<^verbatim>\<open>mlt_audio_get_values\<close> is framework code that is not part
  of this file. It hands the five fields of the AudioBuffer (section 3) back through the
  five pointers of the caller.
\<close>

definition mlt_audio_get_values :: "('s, 'f) mlt_audio_s \<Rightarrow> ('s, 'f) audio_params" where
  "mlt_audio_get_values audio =
     (data audio, format audio, frequency audio, channels audio, samples audio)"

text \<open>
  Modelled from the spec: \<^verbatim>\<open>mlt_audio_reverse\<close> is framework code that is not part of
  this file. By section 4.2 it reverses the temporal order of the samples across all
  channels, each multi-channel sample group moved as a unit; channel count, sample
  format and rate are not touched.
\<close>

definition mlt_audio_reverse :: "('s, 'f) mlt_audio_s \<Rightarrow> ('s, 'f) mlt_audio_s" where
  "mlt_audio_reverse audio = audio\<lparr>data := rev (data audio)\<rparr>"

subsection \<open>Frames and their audio stack\<close>

text \<open>
  What a service pushes on the audio stack of a frame: a pointer to a producer, the
  address of \<^verbatim>\<open>producer_get_audio\<close>, or an item of another service.
\<close>

datatype audio_item = Ptr_producer nat | Fn_producer_get_audio | Other_item nat

text \<open>
  A frame, as far as this file looks into it: the \<^verbatim>\<open>test_audio\<close> flag and the stack
  of pending audio items, the top first.
\<close>

record mlt_frame_s =
  test_audio :: c_int
  stack_audio :: "audio_item list"

text \<open>
  Modelled from the spec: \<^verbatim>\<open>mlt_frame_is_test_audio\<close> is framework code that is not
  part of this file; it is the query \<open>is_placeholder_audio\<close> of section 6, non-zero for a
  placeholder frame.
\<close>

definition mlt_frame_is_test_audio :: "'a mlt_frame_s_scheme \<Rightarrow> c_int" where
  "mlt_frame_is_test_audio frame = test_audio frame"

text \<open>
  Modelled from the spec: \<^verbatim>\<open>mlt_frame_push_audio\<close> and \<^verbatim>\<open>mlt_frame_pop_audio\<close> are
  framework code that is not part of this file. By section 3 the pending audio items of
  a frame are resolved last in, first out: a push puts an item on top, a pop takes the
  top item off and returns it, and returns no item (\<^verbatim>\<open>NULL\<close>) from an empty stack.
\<close>

definition mlt_frame_push_audio ::
  "'a mlt_frame_s_scheme \<Rightarrow> audio_item \<Rightarrow> 'a mlt_frame_s_scheme" where
  "mlt_frame_push_audio frame that = frame\<lparr>stack_audio := that # stack_audio frame\<rparr>"

definition mlt_frame_pop_audio ::
  "'a mlt_frame_s_scheme \<Rightarrow> audio_item option \<times> 'a mlt_frame_s_scheme" where
  "mlt_frame_pop_audio frame =
     (case stack_audio frame of
        [] \<Rightarrow> (None, frame)
      | that # rest \<Rightarrow> (Some that, frame\<lparr>stack_audio := rest\<rparr>))"

subsection \<open>Producers\<close>

text \<open>
  Modelled from the spec: the property store of a producer (\<^verbatim>\<open>mlt_properties_get_int\<close>,
  \<^verbatim>\<open>mlt_properties_get_double\<close>) is framework code that is not part of this file. By
  section 3 the configuration is a signed \<^verbatim>\<open>speed\<close>, an enable flag and the two range
  bounds; the fields carry the names of the properties the code reads, with the types it
  reads them at.
\<close>

record producer_properties =
  speed :: double
  start_frame :: c_int
  end_frame :: c_int
  limit_enabled :: c_int

text \<open>
  Modelled from the spec: the inner producer is framework code. By section 6 it has a
  read position that can be read (\<^verbatim>\<open>mlt_producer_position\<close>) and set (the property
  \<^verbatim>\<open>_position\<close>, through \<^verbatim>\<open>mlt_properties_set_position\<close>); the rest of its state is the
  extension of the record.
\<close>

record mlt_producer_internal =
  position :: c_int

definition mlt_producer_position :: "'i mlt_producer_internal_scheme \<Rightarrow> c_int" where
  "mlt_producer_position self = position self"

definition mlt_properties_set_position ::
  "'i mlt_producer_internal_scheme \<Rightarrow> c_int \<Rightarrow> 'i mlt_producer_internal_scheme" where
  "mlt_properties_set_position self value = self\<lparr>position := value\<rparr>"

text \<open>
  \<^verbatim>\<open>typedef struct { mlt_producer producer_internal; } private_data;\<close> and the producer
  that owns it through \<^verbatim>\<open>child\<close>. Producers live in a store and are referred to by
  their address, a natural number.
\<close>

record 'i private_data =
  producer_internal :: 'i

record 'i mlt_producer_s =
  properties :: producer_properties
  child :: "'i private_data"

type_synonym 'i store = "nat \<Rightarrow> 'i mlt_producer_s"

subsection \<open>\<^verbatim>\<open>producer_get_audio\<close>\<close>

text \<open>
  \<^verbatim>\<open>
  static int producer_get_audio(mlt_frame frame, void **buffer, mlt_audio_format *format,
                                int *frequency, int *channels, int *samples)
  {
      mlt_producer producer = mlt_frame_pop_audio(frame);
      struct mlt_audio_s audio;
      mlt_audio_set_values(&audio, *buffer, *frequency, *format, *samples, *channels);
      int error = mlt_frame_get_audio(frame, &audio.data, &audio.format, &audio.frequency,
                                      &audio.channels, &audio.samples);
      mlt_properties props = MLT_PRODUCER_PROPERTIES(producer);
      const double SPEED = mlt_properties_get_double(props, "speed");
      audio.frequency = (double) audio.frequency * fabs(SPEED);
      if (SPEED < 0.0) {
          mlt_audio_reverse(&audio);
      }
      mlt_audio_get_values(&audio, buffer, frequency, format, samples, channels);
      return error;
  }
  \<close>
  The retrieval of the raw audio from the rest of the chain, \<^verbatim>\<open>mlt_frame_get_audio\<close>, is
  framework code and a parameter of the model: from the frame and the five values it
  returns its status, the five values as it leaves them, and the frame. The store is the
  one at the time of the call; the retrieval does not write the properties of the
  producer. The callback is only ever put on a stack right above the pointer to its
  producer; on any other stack the model has no result.
\<close>

definition producer_get_audio ::
  "('a mlt_frame_s_scheme \<Rightarrow> ('s, 'f) audio_params
      \<Rightarrow> c_int \<times> ('s, 'f) audio_params \<times> 'a mlt_frame_s_scheme)
   \<Rightarrow> 'i store \<Rightarrow> 'a mlt_frame_s_scheme \<Rightarrow> ('s, 'f) audio_params
   \<Rightarrow> (c_int \<times> ('s, 'f) audio_params \<times> 'a mlt_frame_s_scheme) option" where
  "producer_get_audio mlt_frame_get_audio store frame params =
     (case mlt_frame_pop_audio frame of
        (Some (Ptr_producer producer), frame1) \<Rightarrow>
          (case params of (buffer, format', frequency', channels', samples') \<Rightarrow>
            let audio = mlt_audio_set_values buffer frequency' format' samples' channels';
                (error, params1, frame2) =
                   mlt_frame_get_audio frame1
                     (data audio, format audio, frequency audio, channels audio, samples audio);
                audio1 = (case params1 of (d, fm, fr, ch, sm) \<Rightarrow>
                   audio\<lparr>data := d, format := fm, frequency := fr, channels := ch,
                         samples := sm\<rparr>);
                props = properties (store producer);
                SPEED = speed props;
                audio2 = audio1\<lparr>frequency :=
                   double_to_int (double_mult (int_to_double (frequency audio1)) (fabs SPEED))\<rparr>;
                audio3 = (if double_less SPEED double_zero then mlt_audio_reverse audio2
                          else audio2)
            in Some (error, mlt_audio_get_values audio3, frame2))
      | _ \<Rightarrow> None)"

subsection \<open>\<^verbatim>\<open>producer_get_frame\<close> and \<^verbatim>\<open>producer_seek\<close>\<close>

text \<open>
  \<^verbatim>\<open>
  static int producer_get_frame(mlt_producer producer, mlt_frame_ptr frame, int index)
  {
      mlt_properties props = MLT_PRODUCER_PROPERTIES(producer);
      const int FRAME_START = mlt_properties_get_int(props, "start_frame");
      const int FRAME_END = mlt_properties_get_int(props, "end_frame");
      const bool IS_RANGE_LIMITED = mlt_properties_get_int(props, "limit_enabled");
      private_data *pdata = (private_data *) producer->child;
      const int POSITION = mlt_producer_position(pdata->producer_internal);
      if (IS_RANGE_LIMITED && is_valid_range(FRAME_START, FRAME_END)) {
          mlt_properties_set_position(MLT_PRODUCER_PROPERTIES(pdata->producer_internal),
                                      "_position",
                                      restrict_range(POSITION, FRAME_START, FRAME_END));
      }
      int retval = mlt_service_get_frame((mlt_service) pdata->producer_internal, frame, index);
      if (!mlt_frame_is_test_audio(*frame)) {
          mlt_frame_push_audio(*frame, producer);
          mlt_frame_push_audio(*frame, producer_get_audio);
      }
      return retval;
  }
  \<close>
  The frame retrieval of the inner producer, \<^verbatim>\<open>mlt_service_get_frame\<close>, is framework
  code and a parameter of the model: from the inner producer and the index it returns
  its status, the frame, and the inner producer as it leaves it. The model returns the
  status, the frame and the store; it has no result where \<^verbatim>\<open>restrict_range\<close> traps.
\<close>

definition producer_get_frame ::
  "('i mlt_producer_internal_scheme \<Rightarrow> c_int
      \<Rightarrow> c_int \<times> 'a mlt_frame_s_scheme \<times> 'i mlt_producer_internal_scheme)
   \<Rightarrow> 'i mlt_producer_internal_scheme store \<Rightarrow> nat \<Rightarrow> c_int
   \<Rightarrow> (c_int \<times> 'a mlt_frame_s_scheme \<times> 'i mlt_producer_internal_scheme store) option" where
  "producer_get_frame mlt_service_get_frame store producer index =
     (let props = properties (store producer);
          FRAME_START = start_frame props;
          FRAME_END = end_frame props;
          IS_RANGE_LIMITED = (limit_enabled props \<noteq> 0);
          pdata = child (store producer);
          POSITION = mlt_producer_position (producer_internal pdata);
          restricted =
            (if IS_RANGE_LIMITED \<and> is_valid_range FRAME_START FRAME_END \<noteq> 0
             then (case restrict_range POSITION FRAME_START FRAME_END of
                     None \<Rightarrow> None
                   | Some r \<Rightarrow>
                       Some (mlt_properties_set_position (producer_internal pdata) r))
             else Some (producer_internal pdata))
      in case restricted of
           None \<Rightarrow> None
         | Some internal \<Rightarrow>
             (let (retval, frame, internal') = mlt_service_get_frame internal index;
                  frame' =
                    (if mlt_frame_is_test_audio frame = 0
                     then mlt_frame_push_audio
                            (mlt_frame_push_audio frame (Ptr_producer producer))
                            Fn_producer_get_audio
                     else frame)
              in Some (retval, frame',
                       store(producer := (store producer)
                         \<lparr>child := pdata\<lparr>producer_internal := internal'\<rparr>\<rparr>))))"

text \<open>
  \<^verbatim>\<open>
  static int producer_seek(mlt_producer producer, mlt_position position)
  {
      private_data *pdata = (private_data *) producer->child;
      int retval = mlt_producer_seek(pdata->producer_internal, position);
      return retval;
  }
  \<close>
  The seek of the inner producer, \<^verbatim>\<open>mlt_producer_seek\<close>, is framework code and a
  parameter of the model: it returns its status and the inner producer as it leaves it.
\<close>

definition producer_seek ::
  "('i \<Rightarrow> c_int \<Rightarrow> c_int \<times> 'i) \<Rightarrow> 'i store \<Rightarrow> nat \<Rightarrow> c_int \<Rightarrow> c_int \<times> 'i store" where
  "producer_seek mlt_producer_seek store producer position' =
     (let pdata = child (store producer);
          (retval, internal') = mlt_producer_seek (producer_internal pdata) position'
      in (retval,
          store(producer := (store producer)
            \<lparr>child := pdata\<lparr>producer_internal := internal'\<rparr>\<rparr>)))"


subsection \<open>The inner producer at the time of the frame request\<close>

text \<open>
  The inner producer as lines 93 to 105 of \<^verbatim>\<open>producer_get_frame\<close> leave it, which is
  the argument of \<^verbatim>\<open>mlt_service_get_frame\<close> in line 107; no value where
  \<^verbatim>\<open>restrict_range\<close> traps.
\<close>

definition internal_at_get_frame ::
  "'i mlt_producer_internal_scheme store \<Rightarrow> nat \<Rightarrow> 'i mlt_producer_internal_scheme option" where
  "internal_at_get_frame store producer =
     (let props = properties (store producer);
          internal = producer_internal (child (store producer))
      in if limit_enabled props \<noteq> 0 \<and> is_valid_range (start_frame props) (end_frame props) \<noteq> 0
         then (case restrict_range (position internal) (start_frame props) (end_frame props) of
                 None \<Rightarrow> None
               | Some r \<Rightarrow> Some (internal\<lparr>position := r\<rparr>))
         else Some internal)"


subsection \<open>Values for the examples\<close>

text \<open>
  Raw audio of three stereo sample groups at 48000 Hz under the format tag 1, a retrieval
  that succeeds with it, and a retrieval that fails with status 1 and leaves the five
  values as it found them.
\<close>

definition example_audio :: "(int, nat) audio_params" where
  "example_audio = ([[1, 2], [3, 4], [5, 6]], 1, 48000, 2, 3)"

definition example_get_audio ::
  "mlt_frame_s \<Rightarrow> (int, nat) audio_params \<Rightarrow> c_int \<times> (int, nat) audio_params \<times> mlt_frame_s" where
  "example_get_audio frame params = (0, example_audio, frame)"

definition example_get_audio_failing ::
  "mlt_frame_s \<Rightarrow> (int, nat) audio_params \<Rightarrow> c_int \<times> (int, nat) audio_params \<times> mlt_frame_s" where
  "example_get_audio_failing frame params = (1, params, frame)"

text \<open>
  A store whose producers all have the given speed and enable flag, the range 10 to 20,
  and an inner producer at position 25.
\<close>

definition example_store :: "double \<Rightarrow> c_int \<Rightarrow> mlt_producer_internal store" where
  "example_store v enabled =
     (\<lambda>_. \<lparr>properties = \<lparr>speed = v, start_frame = 10, end_frame = 20, limit_enabled = enabled\<rparr>,
           child = \<lparr>producer_internal = \<lparr>position = 25\<rparr>\<rparr>\<rparr>)"

text \<open>
  An inner producer that reports the position it is at as its status, produces a frame
  with the given \<^verbatim>\<open>test_audio\<close> flag and an empty audio stack, and advances by the
  given step; and an inner seek that fails with status 1 on a negative position.
\<close>

definition example_get_frame ::
  "c_int \<Rightarrow> c_int \<Rightarrow> mlt_producer_internal \<Rightarrow> c_int
     \<Rightarrow> c_int \<times> mlt_frame_s \<times> mlt_producer_internal" where
  "example_get_frame flag step internal index =
     (position internal, \<lparr>test_audio = flag, stack_audio = []\<rparr>,
      internal\<lparr>position := position internal + step\<rparr>)"

definition example_seek ::
  "mlt_producer_internal \<Rightarrow> c_int \<Rightarrow> c_int \<times> mlt_producer_internal" where
  "example_seek internal position' =
     (if position' <s 0 then (1, internal) else (0, internal\<lparr>position := position'\<rparr>))"


section \<open>Properties\<close>

subsection \<open>Signed arithmetic without overflow\<close>

lemma sint_c_int_bounds:
  fixes a :: c_int
  shows "- 2147483648 \<le> sint a" and "sint a \<le> 2147483647"
  using sint_ge [of a] sint_lt [of a] by simp_all

lemma sint_sub_exact:
  fixes a b :: c_int
  assumes "- 2147483648 \<le> sint a - sint b" and "sint a - sint b \<le> 2147483647"
  shows "sint (a - b) = sint a - sint b"
  using assms by (simp add: sint_word_ariths signed_take_bit_int_eq_self)

lemma sint_add_exact:
  fixes a b :: c_int
  assumes "- 2147483648 \<le> sint a + sint b" and "sint a + sint b \<le> 2147483647"
  shows "sint (a + b) = sint a + sint b"
  using assms by (simp add: sint_word_ariths signed_take_bit_int_eq_self)

lemma sint_of_int_exact:
  assumes "- 2147483648 \<le> k" and "k \<le> 2147483647"
  shows "sint (word_of_int k :: c_int) = k"
  using assms by (simp add: sint_sbintrunc' signed_take_bit_int_eq_self)

lemma sint_MAX_macro: "sint (MAX_macro x y) = max (sint x) (sint y)"
  by (simp add: MAX_macro_def word_sless_alt max_def)

lemma c_mod_nonneg:
  assumes "0 \<le> sint a" and "0 < sint b"
  shows "c_mod a b = Some (word_of_int (sint a mod sint b))"
proof -
  from assms have "b \<noteq> 0" by auto
  moreover from assms have "b \<noteq> - 1" by auto
  moreover from assms have "sint a smod sint b = sint a mod sint b"
    by (cases "sint a = 0") (simp_all add: signed_modulo_int_def)
  ultimately show ?thesis by (simp add: c_mod_def)
qed

subsection \<open>The wrapped index\<close>

text \<open>
  Where neither \<^verbatim>\<open>index - min\<close> nor \<^verbatim>\<open>max - min + 1\<close> leaves the range of \<^verbatim>\<open>int\<close>,
  \<^verbatim>\<open>restrict_range\<close> returns, and its value is the clamp-then-wrap formula read over
  the integers.
\<close>

lemma restrict_range_exact:
  assumes lt: "sint min' < sint max'"
    and lo: "- 2147483648 \<le> sint index - sint min'"
    and hi: "sint index - sint min' \<le> 2147483647"
    and sp: "sint max' - sint min' + 1 \<le> 2147483647"
  shows "\<exists>r. restrict_range index min' max' = Some r \<and>
           sint r = max (sint index - sint min') 0 mod (sint max' - sint min' + 1) + sint min'"
proof -
  define d where "d = sint index - sint min'"
  define n where "n = sint max' - sint min' + 1"
  have n_pos: "0 < n" using lt by (simp add: n_def)
  have n_is: "n = sint max' - sint min' + 1" by (simp add: n_def)
  have d_eq: "sint (index - min') = d"
    unfolding d_def using lo hi by (rule sint_sub_exact)
  have off: "sint (MAX_macro (index - min') 0) = max d 0"
    by (simp add: sint_MAX_macro d_eq)
  have span: "sint (max' - min') = sint max' - sint min'"
    using lt sp by (intro sint_sub_exact) simp_all
  have n_eq: "sint (max' - min' + 1) = n"
    unfolding n_def using lt sp span by (subst sint_add_exact) simp_all
  have m: "c_mod (MAX_macro (index - min') 0) (max' - min' + 1)
             = Some (word_of_int (max d 0 mod n))"
    using c_mod_nonneg [of "MAX_macro (index - min') 0" "max' - min' + 1"] n_pos
    by (simp add: off n_eq)
  have r0: "0 \<le> max d 0 mod n" "max d 0 mod n < n"
    using n_pos by simp_all
  have s0: "sint (word_of_int (max d 0 mod n) :: c_int) = max d 0 mod n"
  proof (rule sint_of_int_exact)
    show "- 2147483648 \<le> max d 0 mod n" using r0 by linarith
    show "max d 0 mod n \<le> 2147483647" using r0 sp n_is by linarith
  qed
  have b: "- 2147483648 \<le> max d 0 mod n + sint min'"
    "max d 0 mod n + sint min' \<le> 2147483647"
    using r0 n_is sint_c_int_bounds [of min'] sint_c_int_bounds [of max'] by linarith+
  have "sint ((word_of_int (max d 0 mod n) :: c_int) + min') = max d 0 mod n + sint min'"
    using b by (subst sint_add_exact) (simp_all add: s0)
  then show ?thesis
    by (simp add: restrict_range_def Let_def m d_def n_def)
qed

lemma restrict_range_clamp:
  assumes lt: "sint min' < sint max'"
    and lo: "- 2147483648 \<le> sint index - sint min'"
    and le: "sint index \<le> sint min'"
    and sp: "sint max' - sint min' + 1 \<le> 2147483647"
  shows "restrict_range index min' max' = Some min'"
proof -
  from le sint_c_int_bounds [of index] sint_c_int_bounds [of min']
  have hi: "sint index - sint min' \<le> 2147483647" by linarith
  from restrict_range_exact [OF lt lo hi sp] obtain r where
    r: "restrict_range index min' max' = Some r"
    and s: "sint r = max (sint index - sint min') 0 mod (sint max' - sint min' + 1) + sint min'"
    by blast
  from le have "max (sint index - sint min') 0 = 0" by simp
  with s have "sint r = sint min'" by simp
  then have "r = min'" by (rule signed_word_eqI)
  with r show ?thesis by simp
qed

lemma restrict_range_example: "restrict_range 25 10 20 = Some 14"
  by (simp add: restrict_range_def c_mod_def MAX_macro_def INT_MIN_def word_sless_alt
      signed_modulo_int_def)

text \<open>
  The bounds the caller passes have passed \<^verbatim>\<open>is_valid_range\<close>: there \<^verbatim>\<open>restrict_range\<close>
  never traps, whatever the index.
\<close>

lemma restrict_range_defined:
  assumes "is_valid_range frame_start frame_end \<noteq> 0"
  shows "\<exists>r. restrict_range index frame_start frame_end = Some r"
proof -
  from assms have s: "0 \<le> sint frame_start" and lt: "sint frame_start < sint frame_end"
    by (simp_all add: is_valid_range_def Let_def word_sle_eq word_sless_alt split: if_splits)
  have span: "sint (frame_end - frame_start) = sint frame_end - sint frame_start"
    using s lt sint_c_int_bounds [of frame_end] by (intro sint_sub_exact) linarith+
  have nz: "frame_end - frame_start + 1 \<noteq> 0"
  proof
    assume "frame_end - frame_start + 1 = 0"
    then have "frame_end - frame_start = - 1" by (simp add: eq_neg_iff_add_eq_0)
    then have "sint (frame_end - frame_start) = - 1" by simp
    with span lt show False by simp
  qed
  have "0 \<le> sint (MAX_macro (index - frame_start) 0)"
    by (simp add: sint_MAX_macro)
  then have "MAX_macro (index - frame_start) 0 \<noteq> INT_MIN"
    by (auto simp: INT_MIN_def)
  with nz show ?thesis
    by (simp add: restrict_range_def c_mod_def Let_def)
qed

text \<open>
  On non-negative positions and bounds the formula holds throughout, also for the one
  range, 0 to \<^verbatim>\<open>INT_MAX\<close>, whose \<^verbatim>\<open>span + 1\<close> wraps.
\<close>

lemma restrict_range_full_span:
  assumes "0 \<le> sint index"
  shows "restrict_range index 0 2147483647 = Some index"
proof -
  have a: "MAX_macro index 0 = index"
    using assms by (auto simp: MAX_macro_def word_sless_alt intro: signed_word_eqI)
  have b: "(2147483648 :: c_int) = INT_MIN"
    by (simp add: INT_MIN_def)
  have c: "sint INT_MIN = - 2147483648" by (simp add: INT_MIN_def)
  have d: "index \<noteq> INT_MIN" using assms c by auto
  have "sint index smod sint INT_MIN = sint index"
    unfolding c using assms sint_c_int_bounds [of index]
    by (cases "sint index = 0") (simp_all add: signed_modulo_int_def)
  then have e: "(word_of_int (sint index smod sint INT_MIN) :: c_int) = index"
    by simp
  have "INT_MIN \<noteq> (0 :: c_int)" "INT_MIN \<noteq> (- 1 :: c_int)" by (simp_all add: INT_MIN_def)
  then have "c_mod index INT_MIN = Some index"
    unfolding c_mod_def using d e by simp
  then show ?thesis
    by (simp add: restrict_range_def Let_def a b)
qed

lemma restrict_range_nonneg:
  assumes "0 \<le> sint index" and "0 \<le> sint min'" and "sint min' < sint max'"
  shows "\<exists>r. restrict_range index min' max' = Some r \<and>
           sint r = max (sint index - sint min') 0 mod (sint max' - sint min' + 1) + sint min'"
proof (cases "sint max' - sint min' + 1 \<le> 2147483647")
  case True
  with assms sint_c_int_bounds [of index] sint_c_int_bounds [of min'] show ?thesis
    by (intro restrict_range_exact) linarith+
next
  case False
  with assms sint_c_int_bounds [of max'] have "sint min' = 0" "sint max' = 2147483647"
    by linarith+
  then have m: "min' = 0" "max' = 2147483647"
    by (auto intro: signed_word_eqI)
  have "sint index mod 2147483648 = sint index"
    using assms(1) sint_c_int_bounds [of index] by simp
  then show ?thesis
    using restrict_range_full_span [OF assms(1)] assms(1) by (simp add: m)
qed

text \<open>
  Claim C1, as the code has it. For every \<^verbatim>\<open>index\<close>, \<^verbatim>\<open>min\<close> and \<^verbatim>\<open>max\<close> with
  \<^verbatim>\<open>max > min\<close> for which \<^verbatim>\<open>index - min\<close> and \<^verbatim>\<open>max - min + 1\<close> are representable as
  \<^verbatim>\<open>int\<close>, \<^verbatim>\<open>restrict_range(index, min, max)\<close> returns
  \<open>(max (index - min) 0 mod (max - min + 1)) + min\<close>; for every such \<^verbatim>\<open>index <= min\<close> the
  result is exactly \<^verbatim>\<open>min\<close>; and \<^verbatim>\<open>restrict_range(25, 10, 20) == 14\<close>.
\<close>

theorem restrict_range_formula:
  assumes "sint min' < sint max'"
    and "- 2147483648 \<le> sint index - sint min'"
    and "sint index - sint min' \<le> 2147483647"
    and "sint max' - sint min' + 1 \<le> 2147483647"
  shows "(\<exists>r. restrict_range index min' max' = Some r \<and>
            sint r = max (sint index - sint min') 0 mod (sint max' - sint min' + 1) + sint min')
         \<and> (sint index \<le> sint min' \<longrightarrow> restrict_range index min' max' = Some min')
         \<and> restrict_range 25 10 20 = Some 14"
  using assms restrict_range_exact [of min' max' index] restrict_range_clamp [of min' max' index]
    restrict_range_example
  by blast

theorem restrict_range_formula_witness:
  "(\<exists>r. restrict_range 3 10 20 = Some r \<and> sint r = 10) \<and> restrict_range 3 10 20 = Some 10"
  using restrict_range_formula [of 10 20 3] by simp

text \<open>
  Claim C1, as the specification words it (every \<^verbatim>\<open>index\<close>, every \<^verbatim>\<open>max > min\<close>), fails
  where \<^verbatim>\<open>index - min\<close> overflows: for \<^verbatim>\<open>index = INT_MIN\<close>, \<^verbatim>\<open>min = 1\<close>, \<^verbatim>\<open>max = 2\<close> the
  index lies below \<^verbatim>\<open>min\<close>, the formula and the clamp both give 1, and the code, whose
  difference \<^verbatim>\<open>INT_MIN - 1\<close> wraps to \<^verbatim>\<open>INT_MAX\<close>, returns 2.
\<close>

theorem restrict_range_overflow_counterexample:
  "sint (1 :: c_int) < sint (2 :: c_int) \<and> sint INT_MIN \<le> sint (1 :: c_int) \<and>
   restrict_range INT_MIN 1 2 = Some 2 \<and>
   restrict_range INT_MIN 1 2 \<noteq> Some 1 \<and>
   max (sint INT_MIN - sint (1 :: c_int)) 0 mod (sint (2 :: c_int) - sint (1 :: c_int) + 1)
     + sint (1 :: c_int) = 1"
  by (simp add: restrict_range_def c_mod_def MAX_macro_def INT_MIN_def word_sless_alt
      signed_modulo_int_def)

subsection \<open>The validity check\<close>

text \<open>
  Claim C4. For every pair of integers, \<^verbatim>\<open>is_valid_range(start, end)\<close> is true (non-zero)
  if and only if \<^verbatim>\<open>start >= 0\<close>, \<^verbatim>\<open>end >= 0\<close> and \<^verbatim>\<open>end > start\<close>; it is true at (10, 20),
  false at (20, 10) and false at (-1, 5).
\<close>

theorem is_valid_range_iff:
  "(is_valid_range frame_start frame_end \<noteq> 0 \<longleftrightarrow>
      0 \<le> sint frame_start \<and> 0 \<le> sint frame_end \<and> sint frame_start < sint frame_end)
   \<and> is_valid_range frame_start frame_end \<in> {0, 1}
   \<and> is_valid_range 10 20 = 1 \<and> is_valid_range 20 10 = 0 \<and> is_valid_range (- 1) 5 = 0"
  by (simp add: is_valid_range_def Let_def word_sle_eq word_sless_alt)

subsection \<open>Double arithmetic\<close>

text \<open>Rules that evaluate \<open>bitlen\<close> on numerals.\<close>

lemma bitlen_0 [simp]: "bitlen 0 = 0"
  by (simp add: bitlen.simps)

lemma bitlen_Suc_0 [simp]: "bitlen (Suc 0) = Suc 0"
  by (simp add: bitlen.simps)

lemma bitlen_2 [simp]: "bitlen (Suc (Suc 0)) = Suc (Suc 0)"
  by (simp add: bitlen.simps)

lemma bitlen_Bit0 [simp]: "bitlen (numeral (Num.Bit0 k)) = Suc (bitlen (numeral k))"
  by (subst bitlen.simps) simp

lemma bitlen_Bit1 [simp]: "bitlen (numeral (Num.Bit1 k)) = Suc (bitlen (numeral k))"
  by (subst bitlen.simps) simp




lemma double_round_exact:
  assumes "0 < m" and "bitlen m \<le> 53" and "- 1074 \<le> e" and "e + int (bitlen m) \<le> 1024"
  shows "double_round s m e = Finite s m e"
  using assms by (simp add: double_round_def Let_def)

text \<open>
  Where the product of the rate and the speed \<open>(-1)\<^sup>s * m * 2\<^sup>e\<close> needs no rounding and
  its integer part \<open>t\<close> fits an \<^verbatim>\<open>int\<close>, the scaled rate is that integer part with the
  sign of the rate: the product truncated towards zero.
\<close>

lemma scale_exact:
  assumes "bitlen (nat \<bar>sint fr\<bar> * m) \<le> 53" and "- 1074 \<le> e"
    and "e + int (bitlen (nat \<bar>sint fr\<bar> * m)) \<le> 1024"
    and "t = (if 0 \<le> e then \<bar>sint fr\<bar> * int m * 2 ^ nat e
              else \<bar>sint fr\<bar> * int m div 2 ^ nat (- e))"
    and "t \<le> 2147483647"
  shows "sint (double_to_int (double_mult (int_to_double fr) (fabs (Finite s m e)))) =
           (if sint fr < 0 then - t else t)"
proof (cases "nat \<bar>sint fr\<bar> * m = 0")
  case True
  then have "t = 0" using assms(4) by auto
  with True show ?thesis
    by (simp add: int_to_double_def double_round_def double_to_int_def)
next
  case False
  then have dr: "double_round (sint fr < 0) (nat \<bar>sint fr\<bar> * m) e
               = Finite (sint fr < 0) (nat \<bar>sint fr\<bar> * m) e"
    using assms(1-3) by (intro double_round_exact) simp_all
  have prod: "double_mult (int_to_double fr) (fabs (Finite s m e))
                = Finite (sint fr < 0) (nat \<bar>sint fr\<bar> * m) e"
    using dr by (simp add: int_to_double_def)
  have t0: "0 \<le> t" using assms(4) by (auto simp: pos_imp_zdiv_nonneg_iff)
  have t': "(if 0 \<le> e then int (nat \<bar>sint fr\<bar> * m) * 2 ^ nat e
             else int (nat \<bar>sint fr\<bar> * m) div 2 ^ nat (- e)) = t"
    using assms(4) by simp
  have conv: "double_to_int (Finite (sint fr < 0) (nat \<bar>sint fr\<bar> * m) e)
                = word_of_int (if sint fr < 0 then - t else t)"
    unfolding double_to_int_def double.case Let_def t' using t0 assms(5) by simp
  have "sint (word_of_int (if sint fr < 0 then - t else t) :: c_int)
          = (if sint fr < 0 then - t else t)"
    using t0 assms(5) by (intro sint_of_int_exact) (simp_all split: if_splits)
  then show ?thesis
    unfolding prod conv .
qed

text \<open>
  \<^verbatim>\<open>SPEED < 0.0\<close> holds of the negative infinity and of the finite doubles with a
  negative sign and a non-zero mantissa; it fails of both zeros and of a NaN.
\<close>

lemma double_less_zero_iff:
  "double_less x double_zero \<longleftrightarrow>
     (case x of Finite s m e \<Rightarrow> s \<and> 0 < m | Infinity s \<Rightarrow> s | NaN \<Rightarrow> False)"
  by (cases x)
     (auto simp: double_zero_def signed_mantissa_def Let_def zero_less_mult_iff mult_less_0_iff)


text \<open>
  The examples of the specification, on the binary64 representations of the speeds 2.0,
  -1.0, 0.0 and 0.75.
\<close>

lemma scale_examples:
  "double_to_int (double_mult (int_to_double 48000)
     (fabs (Finite False 4503599627370496 (- 51)))) = 96000"
  "double_to_int (double_mult (int_to_double 48000)
     (fabs (Finite True 4503599627370496 (- 52)))) = 48000"
  "double_to_int (double_mult (int_to_double 48000) (fabs (Finite False 0 0))) = 0"
  "double_to_int (double_mult (int_to_double 44100)
     (fabs (Finite False 6755399441055744 (- 53)))) = 33075"
  by (simp_all add: int_to_double_def double_round_def round_shift_def double_to_int_def)

text \<open>
  The edges of the format: half the least subnormal rounds to zero, one and a half times
  it rounds to the even neighbour, twice the greatest finite double overflows, and an
  infinity times a zero is a NaN.
\<close>

lemma double_mult_edges:
  "double_mult (Finite False 1 (- 1074)) (Finite False 1 (- 1)) = Finite False 0 0"
  "double_mult (Finite False 3 (- 1074)) (Finite False 1 (- 1)) = Finite False 2 (- 1074)"
  "double_mult (Finite False 9007199254740991 971) (Finite True 2 0) = Infinity True"
  "double_mult (Infinity False) (Finite True 0 0) = NaN"
  by (simp_all add: double_round_def round_shift_def)

text \<open>
  Rounding is visible: three times the double nearest to one third lies half a unit in
  the last place below 1.0 and rounds to 1.0, so the rate 3 becomes 1 rather than 0.
\<close>

lemma scale_rounds:
  "double_to_int (double_mult (int_to_double 3)
     (fabs (Finite False 6004799503160661 (- 54)))) = 1"
  by (simp add: int_to_double_def double_round_def round_shift_def double_to_int_def)









subsection \<open>The audio callback\<close>

text \<open>
  The whole result of \<^verbatim>\<open>producer_get_audio\<close> on a stack that has the pointer to the
  producer on top: the status of the upstream retrieval, the values it left with the rate
  scaled and the samples reversed for a negative speed, and the frame it left.
\<close>

lemma producer_get_audio_result:
  assumes "stack_audio frame = Ptr_producer producer # rest"
    and "upstream (frame\<lparr>stack_audio := rest\<rparr>) params = (error, (d, fm, fr, ch, sm), frame2)"
  shows "producer_get_audio upstream store frame params =
           Some (error,
                 (if double_less (speed (properties (store producer))) double_zero then rev d else d,
                  fm,
                  double_to_int (double_mult (int_to_double fr)
                     (fabs (speed (properties (store producer))))),
                  ch, sm),
                 frame2)"
  using assms
  by (cases params)
     (simp add: producer_get_audio_def mlt_frame_pop_audio_def mlt_audio_set_values_def
        mlt_audio_get_values_def mlt_audio_reverse_def)




text \<open>
  Claim C3. For every raw audio buffer, the callback hands back the sample groups in
  reversed temporal order, each group moved as a unit (group \<open>k\<close> of the result is group
  \<open>n - 1 - k\<close> of the raw audio), if \<^verbatim>\<open>SPEED < 0.0\<close>, and in the order of the raw audio
  otherwise; \<^verbatim>\<open>SPEED < 0.0\<close> holds exactly of the strictly negative speeds.
\<close>

theorem producer_get_audio_reverse:
  assumes "stack_audio frame = Ptr_producer producer # rest"
    and "upstream (frame\<lparr>stack_audio := rest\<rparr>) params = (error, (d, fm, fr, ch, sm), frame2)"
  shows "\<exists>buffer' format' frequency' channels' samples'.
           producer_get_audio upstream store frame params =
             Some (error, (buffer', format', frequency', channels', samples'), frame2) \<and>
           (double_less (speed (properties (store producer))) double_zero \<longrightarrow>
              buffer' = rev d \<and> length buffer' = length d \<and>
              (\<forall>k < length d. buffer' ! k = d ! (length d - Suc k))) \<and>
           (\<not> double_less (speed (properties (store producer))) double_zero \<longrightarrow> buffer' = d) \<and>
           (double_less (speed (properties (store producer))) double_zero \<longleftrightarrow>
              (case speed (properties (store producer)) of
                 Finite s m e \<Rightarrow> s \<and> 0 < m | Infinity s \<Rightarrow> s | NaN \<Rightarrow> False))"
  using assms double_less_zero_iff [of "speed (properties (store producer))"]
    producer_get_audio_result [where frame = frame and upstream = upstream and params = params
      and store = store and producer = producer and rest = rest and error = error and d = d
      and fm = fm and fr = fr and ch = ch and sm = sm and ?frame2.0 = frame2]
  by (simp add: rev_nth)

theorem producer_get_audio_reverse_witness:
  "(\<exists>format' frequency' channels' samples'.
      producer_get_audio example_get_audio (example_store (Finite True 1 0) 0)
        \<lparr>test_audio = 0, stack_audio = [Ptr_producer 7]\<rparr> ([], 0, 0, 0, 0) =
      Some (0, ([[5, 6], [3, 4], [1, 2]], format', frequency', channels', samples'),
            \<lparr>test_audio = 0, stack_audio = []\<rparr>)) \<and>
   (\<exists>format' frequency' channels' samples'.
      producer_get_audio example_get_audio (example_store (Finite True 0 0) 0)
        \<lparr>test_audio = 0, stack_audio = [Ptr_producer 7]\<rparr> ([], 0, 0, 0, 0) =
      Some (0, ([[1, 2], [3, 4], [5, 6]], format', frequency', channels', samples'),
            \<lparr>test_audio = 0, stack_audio = []\<rparr>))"
proof -
  have a: "stack_audio \<lparr>test_audio = 0, stack_audio = [Ptr_producer 7]\<rparr> = Ptr_producer 7 # []"
    by simp
  have b: "example_get_audio (\<lparr>test_audio = 0, stack_audio = [Ptr_producer 7]\<rparr>\<lparr>stack_audio := []\<rparr>)
             ([], 0, 0, 0, 0) =
           (0, ([[1, 2], [3, 4], [5, 6]], 1, 48000, 2, 3), \<lparr>test_audio = 0, stack_audio = []\<rparr>)"
    by (simp add: example_get_audio_def example_audio_def)
  from a b
    producer_get_audio_reverse
     [where frame = "\<lparr>test_audio = 0, stack_audio = [Ptr_producer 7]\<rparr>"
      and upstream = example_get_audio and params = "([], 0, 0, 0, 0)"
      and store = "example_store (Finite True 1 0) 0" and producer = 7 and rest = "[]"
      and error = 0 and d = "[[1, 2], [3, 4], [5, 6]]" and fm = 1 and fr = 48000 and ch = 2
      and sm = 3 and ?frame2.0 = "\<lparr>test_audio = 0, stack_audio = []\<rparr>"]
    producer_get_audio_reverse
     [where frame = "\<lparr>test_audio = 0, stack_audio = [Ptr_producer 7]\<rparr>"
      and upstream = example_get_audio and params = "([], 0, 0, 0, 0)"
      and store = "example_store (Finite True 0 0) 0" and producer = 7 and rest = "[]"
      and error = 0 and d = "[[1, 2], [3, 4], [5, 6]]" and fm = 1 and fr = 48000 and ch = 2
      and sm = 3 and ?frame2.0 = "\<lparr>test_audio = 0, stack_audio = []\<rparr>"]
  show ?thesis
    by (auto simp add: example_store_def double_zero_def signed_mantissa_def)
qed

text \<open>
  Claim C9. For every invocation of the callback, the sample format and the channel count
  it hands back are those of the raw audio the upstream retrieval delivered.
\<close>

theorem producer_get_audio_channels_format:
  assumes "stack_audio frame = Ptr_producer producer # rest"
    and "upstream (frame\<lparr>stack_audio := rest\<rparr>) params = (error, (d, fm, fr, ch, sm), frame2)"
  shows "\<exists>buffer' frequency' samples'.
           producer_get_audio upstream store frame params =
             Some (error, (buffer', fm, frequency', ch, samples'), frame2)"
  using assms
    producer_get_audio_result [where frame = frame and upstream = upstream and params = params
      and store = store and producer = producer and rest = rest and error = error and d = d
      and fm = fm and fr = fr and ch = ch and sm = sm and ?frame2.0 = frame2]
  by simp

theorem producer_get_audio_channels_format_witness:
  "\<exists>buffer' frequency' samples'.
     producer_get_audio example_get_audio (example_store (Finite True 1 0) 0)
       \<lparr>test_audio = 0, stack_audio = [Ptr_producer 7]\<rparr> ([], 0, 0, 0, 0) =
     Some (0, (buffer', 1, frequency', 2, samples'), \<lparr>test_audio = 0, stack_audio = []\<rparr>)"
proof -
  have a: "stack_audio \<lparr>test_audio = 0, stack_audio = [Ptr_producer 7]\<rparr> = Ptr_producer 7 # []"
    by simp
  have b: "example_get_audio (\<lparr>test_audio = 0, stack_audio = [Ptr_producer 7]\<rparr>\<lparr>stack_audio := []\<rparr>)
             ([], 0, 0, 0, 0) =
           (0, ([[1, 2], [3, 4], [5, 6]], 1, 48000, 2, 3), \<lparr>test_audio = 0, stack_audio = []\<rparr>)"
    by (simp add: example_get_audio_def example_audio_def)
  from a b producer_get_audio_channels_format
    [where frame = "\<lparr>test_audio = 0, stack_audio = [Ptr_producer 7]\<rparr>"
      and upstream = example_get_audio and params = "([], 0, 0, 0, 0)"
      and store = "example_store (Finite True 1 0) 0" and producer = 7 and rest = "[]"
      and error = 0 and d = "[[1, 2], [3, 4], [5, 6]]" and fm = 1 and fr = 48000 and ch = 2
      and sm = 3 and ?frame2.0 = "\<lparr>test_audio = 0, stack_audio = []\<rparr>"]
  show ?thesis
    by auto
qed

text \<open>
  Claim C10. When the upstream retrieval reports a failure status, the callback still
  scales the rate and, for a negative speed, reverses the samples of whatever values the
  failed retrieval left, hands these values back through the pointers of the caller, and
  returns the failure status. In the example the failed retrieval leaves the values of
  the caller as they were, and the caller gets different ones back.
\<close>

theorem producer_get_audio_on_error:
  assumes "stack_audio frame = Ptr_producer producer # rest"
    and "upstream (frame\<lparr>stack_audio := rest\<rparr>) params = (error, (d, fm, fr, ch, sm), frame2)"
    and "error \<noteq> 0"
  shows "producer_get_audio upstream store frame params =
           Some (error,
                 (if double_less (speed (properties (store producer))) double_zero then rev d else d,
                  fm,
                  double_to_int (double_mult (int_to_double fr)
                     (fabs (speed (properties (store producer))))),
                  ch, sm),
                 frame2)"
  using assms
    producer_get_audio_result [where frame = frame and upstream = upstream and params = params
      and store = store and producer = producer and rest = rest and error = error and d = d
      and fm = fm and fr = fr and ch = ch and sm = sm and ?frame2.0 = frame2]
  by simp

theorem producer_get_audio_on_error_witness:
  "producer_get_audio example_get_audio_failing
     (example_store (Finite True 4503599627370496 (- 51)) 0)
     \<lparr>test_audio = 0, stack_audio = [Ptr_producer 7]\<rparr> ([[1, 2], [3, 4]], 1, 48000, 2, 2) =
   Some (1, ([[3, 4], [1, 2]], 1, 96000, 2, 2), \<lparr>test_audio = 0, stack_audio = []\<rparr>) \<and>
   ([[3, 4], [1, 2]], 1, 96000, 2, 2) \<noteq>
     ([[1, 2], [3, 4 :: int]], 1 :: nat, 48000 :: c_int, 2 :: c_int, 2 :: c_int)"
proof -
  have a: "stack_audio \<lparr>test_audio = 0, stack_audio = [Ptr_producer 7]\<rparr> = Ptr_producer 7 # []"
    by simp
  have b: "example_get_audio_failing
             (\<lparr>test_audio = 0, stack_audio = [Ptr_producer 7]\<rparr>\<lparr>stack_audio := []\<rparr>)
             ([[1, 2], [3, 4]], 1, 48000, 2, 2) =
           (1, ([[1, 2], [3, 4]], 1, 48000, 2, 2), \<lparr>test_audio = 0, stack_audio = []\<rparr>)"
    by (simp add: example_get_audio_failing_def)
  have c: "(1 :: c_int) \<noteq> 0" by simp
  from a b c producer_get_audio_on_error
    [where frame = "\<lparr>test_audio = 0, stack_audio = [Ptr_producer 7]\<rparr>"
      and upstream = example_get_audio_failing and params = "([[1, 2], [3, 4]], 1, 48000, 2, 2)"
      and store = "example_store (Finite True 4503599627370496 (- 51)) 0" and producer = 7
      and rest = "[]" and error = 1 and d = "[[1, 2], [3, 4]]" and fm = 1 and fr = 48000
      and ch = 2 and sm = 2 and ?frame2.0 = "\<lparr>test_audio = 0, stack_audio = []\<rparr>"]
  show ?thesis
    by (simp add: example_store_def double_zero_def signed_mantissa_def int_to_double_def
        double_round_def round_shift_def double_to_int_def)
qed

subsection \<open>Frame production and seek\<close>

lemma internal_at_get_frame_defined:
  "\<exists>internal. internal_at_get_frame store producer = Some internal"
  using restrict_range_defined
    [of "start_frame (properties (store producer))" "end_frame (properties (store producer))"
       "position (producer_internal (child (store producer)))"]
  by (auto simp: internal_at_get_frame_def Let_def)

lemma internal_at_get_frame_speed:
  "internal_at_get_frame
     (store(producer := (store producer)\<lparr>properties := (properties (store producer))\<lparr>speed := v\<rparr>\<rparr>))
     producer = internal_at_get_frame store producer"
  by (simp add: internal_at_get_frame_def Let_def)

text \<open>
  The whole result of \<^verbatim>\<open>producer_get_frame\<close>: the status and the frame of the inner
  retrieval, the frame with the two audio items pushed unless it is a placeholder, and
  the inner producer as the retrieval left it.
\<close>

lemma producer_get_frame_result:
  assumes "internal_at_get_frame store producer = Some internal"
    and "gf internal index = (retval, frame, internal')"
  shows "producer_get_frame gf store producer index =
           Some (retval,
                 (if test_audio frame = 0
                  then frame\<lparr>stack_audio :=
                         Fn_producer_get_audio # Ptr_producer producer # stack_audio frame\<rparr>
                  else frame),
                 store(producer := (store producer)
                   \<lparr>child := (child (store producer))\<lparr>producer_internal := internal'\<rparr>\<rparr>))"
  using assms
  by (auto simp: producer_get_frame_def internal_at_get_frame_def Let_def
      mlt_producer_position_def mlt_properties_set_position_def mlt_frame_is_test_audio_def
      mlt_frame_push_audio_def split: option.splits if_splits)

text \<open>
  Claim C5. On every frame request the call returns, and the inner producer whose frame
  retrieval is invoked (\<open>internal\<close>) is: with the restriction enabled and bounds that pass
  \<^verbatim>\<open>is_valid_range\<close>, the inner producer with its position set to
  \<^verbatim>\<open>restrict_range(POSITION, FRAME_START, FRAME_END)\<close>; in every other case the inner
  producer exactly as it was before the call. Nothing but the inner retrieval changes the
  inner producer afterwards, so where that retrieval keeps the position, the position
  after the call is the one before it.
\<close>

theorem producer_get_frame_position:
  "\<exists>internal frame' store'.
     producer_get_frame gf store producer index = Some (fst (gf internal index), frame', store') \<and>
     producer_internal (child (store' producer)) = snd (snd (gf internal index)) \<and>
     (if limit_enabled (properties (store producer)) \<noteq> 0 \<and>
         is_valid_range (start_frame (properties (store producer)))
           (end_frame (properties (store producer))) \<noteq> 0
      then \<exists>r. restrict_range (position (producer_internal (child (store producer))))
                 (start_frame (properties (store producer)))
                 (end_frame (properties (store producer))) = Some r \<and>
               internal = (producer_internal (child (store producer)))\<lparr>position := r\<rparr>
      else internal = producer_internal (child (store producer)) \<and>
           (position (snd (snd (gf internal index))) = position internal \<longrightarrow>
              position (producer_internal (child (store' producer))) =
                position (producer_internal (child (store producer)))))"
proof -
  obtain internal where i: "internal_at_get_frame store producer = Some internal"
    using internal_at_get_frame_defined by blast
  obtain retval frame internal' where g: "gf internal index = (retval, frame, internal')"
    by (cases "gf internal index") auto
  from i have "if limit_enabled (properties (store producer)) \<noteq> 0 \<and>
         is_valid_range (start_frame (properties (store producer)))
           (end_frame (properties (store producer))) \<noteq> 0
      then \<exists>r. restrict_range (position (producer_internal (child (store producer))))
                 (start_frame (properties (store producer)))
                 (end_frame (properties (store producer))) = Some r \<and>
               internal = (producer_internal (child (store producer)))\<lparr>position := r\<rparr>
      else internal = producer_internal (child (store producer))"
    by (auto simp: internal_at_get_frame_def Let_def split: if_splits option.splits)
  with i g producer_get_frame_result [where gf = gf and store = store and producer = producer
      and internal = internal and index = index and retval = retval and frame = frame
      and internal' = internal']
  show ?thesis
    by (intro exI [of _ internal]) (simp split: if_splits)
qed

theorem producer_get_frame_position_witness:
  "(\<exists>frame' store'.
      producer_get_frame (example_get_frame 0 1) (example_store double_zero 1) 7 0 =
        Some (14, frame', store') \<and>
      position (producer_internal (child (store' 7))) = 15) \<and>
   (\<exists>frame' store'.
      producer_get_frame (example_get_frame 0 0) (example_store double_zero 0) 7 0 =
        Some (25, frame', store') \<and>
      position (producer_internal (child (store' 7))) = 25)"
  using
    producer_get_frame_position [of "example_get_frame 0 1" "example_store double_zero 1" 7 0]
    producer_get_frame_position [of "example_get_frame 0 0" "example_store double_zero 0" 7 0]
  by (auto simp: example_store_def example_get_frame_def is_valid_range_def Let_def
      word_sle_eq word_sless_alt restrict_range_example)

text \<open>
  Claim C7. For every frame produced, the two audio items of the speed transform are on
  top of the audio stack of the frame handed out if and only if the frame of the inner
  retrieval is not a placeholder. A placeholder frame is handed out exactly as the inner
  retrieval produced it, whatever the speed of the producer is set to: what its audio is
  when requested later is what the frame of the inner retrieval has.
\<close>

theorem producer_get_frame_attach:
  "\<exists>internal retval frame internal' frame' store'.
     internal_at_get_frame store producer = Some internal \<and>
     gf internal index = (retval, frame, internal') \<and>
     producer_get_frame gf store producer index = Some (retval, frame', store') \<and>
     (stack_audio frame' = Fn_producer_get_audio # Ptr_producer producer # stack_audio frame
        \<longleftrightarrow> mlt_frame_is_test_audio frame = 0) \<and>
     (mlt_frame_is_test_audio frame = 0 \<longrightarrow>
        frame' = frame\<lparr>stack_audio :=
                   Fn_producer_get_audio # Ptr_producer producer # stack_audio frame\<rparr>) \<and>
     (mlt_frame_is_test_audio frame \<noteq> 0 \<longrightarrow>
        frame' = frame \<and>
        (\<forall>v. \<exists>store''.
           producer_get_frame gf
             (store(producer := (store producer)
                \<lparr>properties := (properties (store producer))\<lparr>speed := v\<rparr>\<rparr>))
             producer index = Some (retval, frame, store'')))"
proof -
  obtain internal where i: "internal_at_get_frame store producer = Some internal"
    using internal_at_get_frame_defined by blast
  obtain retval frame internal' where g: "gf internal index = (retval, frame, internal')"
    by (cases "gf internal index") auto
  note r = producer_get_frame_result [where gf = gf and internal = internal and index = index
      and retval = retval and frame = frame and internal' = internal' and producer = producer]
  have ne: "Fn_producer_get_audio # Ptr_producer producer # stack_audio frame \<noteq> stack_audio frame"
  proof
    assume "Fn_producer_get_audio # Ptr_producer producer # stack_audio frame = stack_audio frame"
    then have "length (Fn_producer_get_audio # Ptr_producer producer # stack_audio frame)
                 = length (stack_audio frame)" by simp
    then show False by simp
  qed
  have v: "producer_get_frame gf
             (store(producer := (store producer)
                \<lparr>properties := (properties (store producer))\<lparr>speed := v\<rparr>\<rparr>))
             producer index =
           Some (retval,
                 (if test_audio frame = 0
                  then frame\<lparr>stack_audio :=
                         Fn_producer_get_audio # Ptr_producer producer # stack_audio frame\<rparr>
                  else frame),
                 (store(producer := (store producer)
                    \<lparr>properties := (properties (store producer))\<lparr>speed := v\<rparr>\<rparr>))
                 (producer := ((store(producer := (store producer)
                    \<lparr>properties := (properties (store producer))\<lparr>speed := v\<rparr>\<rparr>)) producer)
                   \<lparr>child := (child ((store(producer := (store producer)
                    \<lparr>properties := (properties (store producer))\<lparr>speed := v\<rparr>\<rparr>)) producer))
                      \<lparr>producer_internal := internal'\<rparr>\<rparr>))" for v
    using i g by (intro r) (simp_all add: internal_at_get_frame_speed)
  show ?thesis
    using i g r [of store] ne v
    by (intro exI [of _ internal] exI [of _ retval] exI [of _ frame] exI [of _ internal']
          exI [of _ "if test_audio frame = 0
                     then frame\<lparr>stack_audio :=
                            Fn_producer_get_audio # Ptr_producer producer # stack_audio frame\<rparr>
                     else frame"]
          exI [of _ "store(producer := (store producer)
                   \<lparr>child := (child (store producer))\<lparr>producer_internal := internal'\<rparr>\<rparr>)"])
       (simp add: mlt_frame_is_test_audio_def)
qed

theorem producer_get_frame_attach_witness:
  "(\<exists>store'. producer_get_frame (example_get_frame 0 1) (example_store double_zero 0) 7 0 =
      Some (25, \<lparr>test_audio = 0, stack_audio = [Fn_producer_get_audio, Ptr_producer 7]\<rparr>, store')) \<and>
   (\<exists>store'. producer_get_frame (example_get_frame 1 1) (example_store double_zero 0) 7 0 =
      Some (25, \<lparr>test_audio = 1, stack_audio = []\<rparr>, store'))"
  using
    producer_get_frame_attach [of "example_store double_zero 0" 7 "example_get_frame 0 1" 0]
    producer_get_frame_attach [of "example_store double_zero 0" 7 "example_get_frame 1 1" 0]
  by (auto simp: example_store_def example_get_frame_def internal_at_get_frame_def
      mlt_frame_is_test_audio_def Let_def)

text \<open>
  Claim C8. For every request, \<^verbatim>\<open>producer_get_frame\<close> returns the status of the one frame
  retrieval it invokes on the inner producer, and \<^verbatim>\<open>producer_seek\<close> returns the status of
  the one seek it invokes on the inner producer; the inner producer is left as that one
  invocation leaves it, so nothing is swallowed, altered or retried.
\<close>

theorem status_propagation:
  "(\<exists>internal frame' store'.
      internal_at_get_frame store producer = Some internal \<and>
      producer_get_frame gf store producer index = Some (fst (gf internal index), frame', store') \<and>
      producer_internal (child (store' producer)) = snd (snd (gf internal index))) \<and>
   (\<exists>store'.
      producer_seek sk store producer position' =
        (fst (sk (producer_internal (child (store producer))) position'), store') \<and>
      producer_internal (child (store' producer)) =
        snd (sk (producer_internal (child (store producer))) position'))"
proof -
  obtain internal where i: "internal_at_get_frame store producer = Some internal"
    using internal_at_get_frame_defined by blast
  obtain retval frame internal' where g: "gf internal index = (retval, frame, internal')"
    by (cases "gf internal index") auto
  from i g producer_get_frame_result [where gf = gf and internal = internal and index = index
      and retval = retval and frame = frame and internal' = internal' and producer = producer
      and store = store]
  have "\<exists>internal frame' store'.
      internal_at_get_frame store producer = Some internal \<and>
      producer_get_frame gf store producer index = Some (fst (gf internal index), frame', store') \<and>
      producer_internal (child (store' producer)) = snd (snd (gf internal index))"
    by (intro exI [of _ internal]) simp
  moreover have "\<exists>store'.
      producer_seek sk store producer position' =
        (fst (sk (producer_internal (child (store producer))) position'), store') \<and>
      producer_internal (child (store' producer)) =
        snd (sk (producer_internal (child (store producer))) position')"
    by (cases "sk (producer_internal (child (store producer))) position'")
       (simp add: producer_seek_def Let_def)
  ultimately show ?thesis by blast
qed

theorem status_propagation_witness:
  "(\<exists>frame' store'.
      producer_get_frame (example_get_frame 0 1) (example_store double_zero 1) 7 0 =
        Some (14, frame', store')) \<and>
   (\<exists>store'. producer_seek example_seek (example_store double_zero 1) 7 (- 3) = (1, store')) \<and>
   (\<exists>store'. producer_seek example_seek (example_store double_zero 1) 7 12 = (0, store'))"
  using
    status_propagation
      [of "example_store double_zero 1" 7 "example_get_frame 0 1" 0 example_seek "- 3"]
    status_propagation
      [of "example_store double_zero 1" 7 "example_get_frame 0 1" 0 example_seek 12]
  by (auto simp: example_store_def example_get_frame_def example_seek_def
      internal_at_get_frame_def is_valid_range_def Let_def word_sle_eq word_sless_alt
      restrict_range_example)

text \<open>
  Claim C6. Take any frame that \<^verbatim>\<open>producer_get_frame\<close> has produced under a store \<open>store\<close>
  and that is not a placeholder. Its top audio item is \<^verbatim>\<open>producer_get_audio\<close>, and when
  that callback is invoked under any later store \<open>store'\<close>, whatever \<open>store\<close> was, the rate
  is scaled and the samples are reversed by the speed the producer has in \<open>store'\<close>: the
  speed is read when the audio is rendered, not when the callback was attached.
\<close>

theorem speed_read_at_render_time:
  assumes "producer_get_frame gf store producer index = Some (retval, frame', store1)"
    and "mlt_frame_is_test_audio frame' = 0"
    and "upstream (frame'\<lparr>stack_audio := drop 2 (stack_audio frame')\<rparr>) params =
           (error, (d, fm, fr, ch, sm), frame2)"
  shows "mlt_frame_pop_audio frame' =
           (Some Fn_producer_get_audio, frame'\<lparr>stack_audio := tl (stack_audio frame')\<rparr>) \<and>
         producer_get_audio upstream store' (frame'\<lparr>stack_audio := tl (stack_audio frame')\<rparr>)
             params =
           Some (error,
                 (if double_less (speed (properties (store' producer))) double_zero
                  then rev d else d,
                  fm,
                  double_to_int (double_mult (int_to_double fr)
                     (fabs (speed (properties (store' producer))))),
                  ch, sm),
                 frame2)"
proof -
  obtain internal where i: "internal_at_get_frame store producer = Some internal"
    using internal_at_get_frame_defined by blast
  obtain retval0 frame internal' where g: "gf internal index = (retval0, frame, internal')"
    by (cases "gf internal index") auto
  from i g assms(1) producer_get_frame_result [where gf = gf and internal = internal
      and index = index and retval = retval0 and frame = frame and internal' = internal'
      and producer = producer and store = store]
  have f: "frame' = (if test_audio frame = 0
                     then frame\<lparr>stack_audio :=
                            Fn_producer_get_audio # Ptr_producer producer # stack_audio frame\<rparr>
                     else frame)"
    by simp
  with assms(2) have t: "test_audio frame = 0"
    by (simp add: mlt_frame_is_test_audio_def split: if_splits)
  with f have f': "frame' = frame\<lparr>stack_audio :=
                      Fn_producer_get_audio # Ptr_producer producer # stack_audio frame\<rparr>"
    by simp
  have pop: "mlt_frame_pop_audio frame' =
           (Some Fn_producer_get_audio, frame'\<lparr>stack_audio := tl (stack_audio frame')\<rparr>)"
    by (simp add: f' mlt_frame_pop_audio_def)
  have st: "stack_audio (frame'\<lparr>stack_audio := tl (stack_audio frame')\<rparr>) =
              Ptr_producer producer # stack_audio frame"
    by (simp add: f')
  have up: "upstream ((frame'\<lparr>stack_audio := tl (stack_audio frame')\<rparr>)
               \<lparr>stack_audio := stack_audio frame\<rparr>) params =
             (error, (d, fm, fr, ch, sm), frame2)"
    using assms(3) by (simp add: f')
  from st up
    producer_get_audio_result [where frame = "frame'\<lparr>stack_audio := tl (stack_audio frame')\<rparr>"
      and upstream = upstream and params = params and store = store' and producer = producer
      and rest = "stack_audio frame" and error = error and d = d and fm = fm and fr = fr
      and ch = ch and sm = sm and ?frame2.0 = frame2]
  show ?thesis using pop by simp
qed

text \<open>
  The frame is produced at speed 1.0 and rendered after the speed was set to -2.0: the
  audio comes back reversed and at 96000 Hz.
\<close>

theorem speed_read_at_render_time_witness:
  "(\<exists>store1. producer_get_frame (example_get_frame 0 1) (example_store (Finite False 1 0) 0) 7 0 =
      Some (25, \<lparr>test_audio = 0, stack_audio = [Fn_producer_get_audio, Ptr_producer 7]\<rparr>, store1)) \<and>
   producer_get_audio example_get_audio (example_store (Finite True 1 1) 0)
     \<lparr>test_audio = 0, stack_audio = [Ptr_producer 7]\<rparr> ([], 0, 0, 0, 0) =
     Some (0, ([[5, 6], [3, 4], [1, 2]], 1, 96000, 2, 3), \<lparr>test_audio = 0, stack_audio = []\<rparr>)"
proof -
  have "\<exists>store1. producer_get_frame (example_get_frame 0 1) (example_store (Finite False 1 0) 0) 7 0 =
      Some (25, \<lparr>test_audio = 0, stack_audio = [Fn_producer_get_audio, Ptr_producer 7]\<rparr>, store1)"
    by (simp add: producer_get_frame_def example_get_frame_def example_store_def Let_def
        mlt_producer_position_def mlt_frame_is_test_audio_def mlt_frame_push_audio_def)
  then obtain store1 where
    a: "producer_get_frame (example_get_frame 0 1) (example_store (Finite False 1 0) 0) 7 0 =
      Some (25, \<lparr>test_audio = 0, stack_audio = [Fn_producer_get_audio, Ptr_producer 7]\<rparr>, store1)"
    by blast
  have b: "mlt_frame_is_test_audio
             \<lparr>test_audio = 0, stack_audio = [Fn_producer_get_audio, Ptr_producer 7]\<rparr> = 0"
    by (simp add: mlt_frame_is_test_audio_def)
  have c: "example_get_audio
             (\<lparr>test_audio = 0, stack_audio = [Fn_producer_get_audio, Ptr_producer 7]\<rparr>
                \<lparr>stack_audio := drop 2
                   (stack_audio \<lparr>test_audio = 0,
                      stack_audio = [Fn_producer_get_audio, Ptr_producer 7]\<rparr>)\<rparr>)
             ([], 0, 0, 0, 0) =
           (0, ([[1, 2], [3, 4], [5, 6]], 1, 48000, 2, 3), \<lparr>test_audio = 0, stack_audio = []\<rparr>)"
    by (simp add: example_get_audio_def example_audio_def)
  from a b c speed_read_at_render_time [where gf = "example_get_frame 0 1"
      and store = "example_store (Finite False 1 0) 0" and producer = 7 and index = 0
      and retval = 25
      and frame' = "\<lparr>test_audio = 0, stack_audio = [Fn_producer_get_audio, Ptr_producer 7]\<rparr>"
      and ?store1.0 = store1 and upstream = example_get_audio and params = "([], 0, 0, 0, 0)"
      and error = 0 and d = "[[1, 2], [3, 4], [5, 6]]" and fm = 1 and fr = 48000 and ch = 2
      and sm = 3 and ?frame2.0 = "\<lparr>test_audio = 0, stack_audio = []\<rparr>"
      and store' = "example_store (Finite True 1 1) 0"]
  show ?thesis
    by (simp add: example_store_def double_zero_def signed_mantissa_def int_to_double_def
        double_round_def round_shift_def double_to_int_def)
qed

end
